theory Spec2Isabelle
  imports Complex_Main
begin

section \<open>Data model of \<^verbatim>\<open>src/App.tsx\<close>\<close>

text \<open>
  The component keeps seven \<^verbatim>\<open>useState\<close> cells and talks to three HTTP endpoints
  and to the browser's geolocation service. JavaScript numbers only travel through the
  component (no arithmetic is done on coordinates or on payload fields by the handlers),
  so they are modelled by rationals, which contain every finite double.

  The answers of the endpoints are taken to have the shape of the TypeScript interfaces
  of lines 12-42. A handler is modelled as it runs on its own, from its call to the last
  statement after its last \<^verbatim>\<open>await\<close>; each handler is split at its first
  \<^verbatim>\<open>await\<close> into the part that sends and the part that resumes. Of the rendering
  only the expression that makes the forecast strip is modelled, with what evaluating
  it can throw; \<^verbatim>\<open>mapRef\<close> is never written by the handlers and is left out.
\<close>

type_synonym number = rat

text \<open>\<^verbatim>\<open>interface WeatherData\<close> (lines 12-29). The field \<^verbatim>\<open>weather\<close> of the payload
  is called \<open>conditions\<close> here, since \<open>weather\<close> is also the name of a state cell.\<close>

record condition =
  description :: string
  icon :: string

record weather_main =
  temp :: number
  feels_like :: number
  humidity :: number
  pressure :: number

record weather_data =
  name :: string
  main :: weather_main
  conditions :: "condition list"
  wind_speed :: number
  visibility :: number
  dt :: number

text \<open>\<^verbatim>\<open>interface ForecastData\<close> (lines 31-42); the fields of an entry carry the
  prefix \<open>entry_\<close> to keep them apart from those of \<open>weather_data\<close>.\<close>

record forecast_entry =
  entry_dt :: number
  entry_temp :: number
  entry_conditions :: "condition list"

record forecast_data =
  entries :: "forecast_entry list"

text \<open>One element of the geocoding endpoint's answer: the handler reads \<^verbatim>\<open>lat\<close> and
  \<^verbatim>\<open>lon\<close> of element 0.\<close>

record geo_entry =
  lat :: number
  lon :: number

text \<open>The state cells of \<^verbatim>\<open>App\<close> (lines 57-63).\<close>

record app_state =
  city :: string
  weather :: "weather_data option"
  forecast :: "forecast_data option"
  loading :: bool
  error :: string
  coords :: "(number \<times> number) option"
  darkMode :: bool

subsection \<open>The outside world\<close>

text \<open>The three URLs the component requests with \<^verbatim>\<open>axios.get\<close>, by endpoint and
  query parameters.\<close>

datatype request =
  GeoReq string
| WeatherReq number number
| ForecastReq number number

text \<open>A rejected \<^verbatim>\<open>axios.get\<close> promise: no answer at all, or a status outside 2xx.\<close>

datatype http_error = NetworkError | BadStatus nat

text \<open>What the endpoints answer during one run of a handler.\<close>

record env =
  get_geo :: "string \<Rightarrow> http_error + geo_entry list"
  get_weather :: "number \<Rightarrow> number \<Rightarrow> http_error + weather_data"
  get_forecast :: "number \<Rightarrow> number \<Rightarrow> http_error + forecast_data"

text \<open>\<^verbatim>\<open>navigator.geolocation\<close>: absent, or \<^verbatim>\<open>getCurrentPosition\<close> calling its error
  callback with one of the three codes of the browser API, or its success callback.\<close>

datatype geo_failure = PermissionDenied | PositionUnavailable | Timeout

datatype geolocation =
  Unsupported
| Failed geo_failure
| Position number number

text \<open>The history of HTTP traffic: a request leaving, and the awaited promise settling
  (the point where the code after \<^verbatim>\<open>await\<close> resumes).\<close>

datatype event = Sent request | Settled request

text \<open>The component's cells together with what it has done to the outside: the HTTP
  history and the lines written with \<^verbatim>\<open>console.error\<close>.\<close>

record world =
  ui :: app_state
  http :: "event list"
  console :: "string list"

definition initial :: world where
  "initial =
     \<lparr>ui = \<lparr>city = '''', weather = None, forecast = None, loading = False,
             error = '''', coords = None, darkMode = False\<rparr>,
      http = [], console = []\<rparr>"

section \<open>State setters and effects\<close>

definition setCity :: "string \<Rightarrow> world \<Rightarrow> world" where
  "setCity v w = w\<lparr>ui := (ui w)\<lparr>city := v\<rparr>\<rparr>"

definition setWeather :: "weather_data option \<Rightarrow> world \<Rightarrow> world" where
  "setWeather v w = w\<lparr>ui := (ui w)\<lparr>weather := v\<rparr>\<rparr>"

definition setForecast :: "forecast_data option \<Rightarrow> world \<Rightarrow> world" where
  "setForecast v w = w\<lparr>ui := (ui w)\<lparr>forecast := v\<rparr>\<rparr>"

definition setLoading :: "bool \<Rightarrow> world \<Rightarrow> world" where
  "setLoading v w = w\<lparr>ui := (ui w)\<lparr>loading := v\<rparr>\<rparr>"

definition setError :: "string \<Rightarrow> world \<Rightarrow> world" where
  "setError v w = w\<lparr>ui := (ui w)\<lparr>error := v\<rparr>\<rparr>"

definition setCoords :: "(number \<times> number) option \<Rightarrow> world \<Rightarrow> world" where
  "setCoords v w = w\<lparr>ui := (ui w)\<lparr>coords := v\<rparr>\<rparr>"

definition setDarkMode :: "bool \<Rightarrow> world \<Rightarrow> world" where
  "setDarkMode v w = w\<lparr>ui := (ui w)\<lparr>darkMode := v\<rparr>\<rparr>"

definition send :: "request \<Rightarrow> world \<Rightarrow> world" where
  "send r w = w\<lparr>http := http w @ [Sent r]\<rparr>"

definition settle :: "request \<Rightarrow> world \<Rightarrow> world" where
  "settle r w = w\<lparr>http := http w @ [Settled r]\<rparr>"

definition console_error :: "string \<Rightarrow> world \<Rightarrow> world" where
  "console_error m w = w\<lparr>console := console w @ [m]\<rparr>"

section \<open>The handlers\<close>

subsection \<open>\<^verbatim>\<open>fetchWeather\<close> (lines 84-94)\<close>

text \<open>The part that runs before the \<^verbatim>\<open>await\<close>: lines 85, 86 and the call of line 88.\<close>

definition fetchWeather_send :: "number \<Rightarrow> number \<Rightarrow> world \<Rightarrow> world" where
  "fetchWeather_send la lo w =
     send (WeatherReq la lo) (setError '''' (setLoading True w))"

text \<open>The part that runs once the promise has settled: line 89 or the \<^verbatim>\<open>catch\<close> of
  line 91, then line 93.\<close>

definition fetchWeather_settle ::
  "number \<Rightarrow> number \<Rightarrow> http_error + weather_data \<Rightarrow> world \<Rightarrow> world" where
  "fetchWeather_settle la lo resp w =
     setLoading False
       (case resp of
          Inr d \<Rightarrow> setWeather (Some d) (settle (WeatherReq la lo) w)
        | Inl e \<Rightarrow> setError ''Unable to fetch weather data. Please try again.''
                    (settle (WeatherReq la lo) w))"

definition fetchWeather :: "env \<Rightarrow> number \<Rightarrow> number \<Rightarrow> world \<Rightarrow> world" where
  "fetchWeather en la lo w =
     fetchWeather_settle la lo (get_weather en la lo) (fetchWeather_send la lo w)"

subsection \<open>\<^verbatim>\<open>fetchForecast\<close> (lines 96-103)\<close>

definition fetchForecast_send :: "number \<Rightarrow> number \<Rightarrow> world \<Rightarrow> world" where
  "fetchForecast_send la lo w = send (ForecastReq la lo) w"

definition fetchForecast_settle ::
  "number \<Rightarrow> number \<Rightarrow> http_error + forecast_data \<Rightarrow> world \<Rightarrow> world" where
  "fetchForecast_settle la lo resp w =
     (case resp of
        Inr d \<Rightarrow> setForecast (Some d) (settle (ForecastReq la lo) w)
      | Inl e \<Rightarrow> console_error ''Unable to fetch forecast data''
                  (settle (ForecastReq la lo) w))"

definition fetchForecast :: "env \<Rightarrow> number \<Rightarrow> number \<Rightarrow> world \<Rightarrow> world" where
  "fetchForecast en la lo w =
     fetchForecast_settle la lo (get_forecast en la lo) (fetchForecast_send la lo w)"

subsection \<open>The startup effect (lines 66-82)\<close>

text \<open>The success callback calls both fetchers without awaiting them: both requests
  leave before either answer is handled, and the answers arrive in either order.\<close>

datatype arrival = WeatherFirst | ForecastFirst

definition startup :: "geolocation \<Rightarrow> arrival \<Rightarrow> env \<Rightarrow> world \<Rightarrow> world" where
  "startup g ord en w =
     (case g of
        Position la lo \<Rightarrow>
          (let w1 = setCoords (Some (la, lo)) w;
               w2 = fetchWeather_send la lo w1;
               w3 = fetchForecast_send la lo w2
           in case ord of
                WeatherFirst \<Rightarrow>
                  fetchForecast_settle la lo (get_forecast en la lo)
                    (fetchWeather_settle la lo (get_weather en la lo) w3)
              | ForecastFirst \<Rightarrow>
                  fetchWeather_settle la lo (get_weather en la lo)
                    (fetchForecast_settle la lo (get_forecast en la lo) w3))
      | Failed e \<Rightarrow>
          setError ''Unable to retrieve your location. Please search for a city.'' w
      | Unsupported \<Rightarrow>
          setError
            ''Geolocation is not supported by your browser. Please search for a city.'' w)"

subsection \<open>\<^verbatim>\<open>handleSearch\<close> (lines 105-123)\<close>

text \<open>Lines 107, 108 and the call of line 110, which reads the \<open>city\<close> cell.\<close>

definition handleSearch_send :: "world \<Rightarrow> world" where
  "handleSearch_send w =
     send (GeoReq (city (ui w))) (setError '''' (setLoading True w))"

text \<open>Lines 111-122, run when the geocoding promise has settled. Both fetchers catch
  their own failures, so the \<^verbatim>\<open>catch\<close> of line 119 is reached from line 110 only.\<close>

definition handleSearch_settle ::
  "env \<Rightarrow> string \<Rightarrow> http_error + geo_entry list \<Rightarrow> world \<Rightarrow> world" where
  "handleSearch_settle en q resp w =
     setLoading False
       (case resp of
          Inr (g # gs) \<Rightarrow>
            fetchForecast en (lat g) (lon g)
              (fetchWeather en (lat g) (lon g)
                 (setCoords (Some (lat g, lon g)) (settle (GeoReq q) w)))
        | Inr [] \<Rightarrow> setError ''City not found. Please try again.'' (settle (GeoReq q) w)
        | Inl e \<Rightarrow> setError ''An error occurred. Please try again.'' (settle (GeoReq q) w))"

definition handleSearch :: "env \<Rightarrow> world \<Rightarrow> world" where
  "handleSearch en w =
     handleSearch_settle en (city (ui w)) (get_geo en (city (ui w))) (handleSearch_send w)"

subsection \<open>\<^verbatim>\<open>toggleDarkMode\<close> (lines 125-127)\<close>

definition toggleDarkMode :: "world \<Rightarrow> world" where
  "toggleDarkMode w = setDarkMode (\<not> darkMode (ui w)) w"

subsection \<open>The forecast strip (lines 229-246)\<close>











section \<open>Consistency of coordinates and snapshots\<close>

text \<open>The stored coordinates agree with what is on display when the displayed weather
  and the displayed forecast are the answers of the endpoints for exactly those
  coordinates.\<close>

definition coords_consistent :: "env \<Rightarrow> world \<Rightarrow> bool" where
  "coords_consistent en w =
     (case coords (ui w) of
        None \<Rightarrow> True
      | Some (la, lo) \<Rightarrow>
          (case weather (ui w) of None \<Rightarrow> True | Some d \<Rightarrow> get_weather en la lo = Inr d)
          \<and> (case forecast (ui w) of None \<Rightarrow> True | Some f \<Rightarrow> get_forecast en la lo = Inr f))"

section \<open>Sample payloads and endpoints\<close>

definition sample_weather :: "string \<Rightarrow> weather_data" where
  "sample_weather n =
     \<lparr>name = n,
      main = \<lparr>temp = 18.4, feels_like = 17.9, humidity = 60, pressure = 1012\<rparr>,
      conditions = [\<lparr>description = ''clear sky'', icon = ''01d''\<rparr>],
      wind_speed = 3.6, visibility = 10000, dt = 1700000000\<rparr>"

definition sample_entry :: "nat \<Rightarrow> forecast_entry" where
  "sample_entry i =
     \<lparr>entry_dt = of_nat (1700000000 + 10800 * i), entry_temp = of_nat i,
      entry_conditions = [\<lparr>description = ''light rain'', icon = ''10d''\<rparr>]\<rparr>"

definition sample_forecast :: forecast_data where
  "sample_forecast = \<lparr>entries = map sample_entry [0..<40]\<rparr>"

text \<open>Every endpoint answers; the geocoder knows Paris only.\<close>

definition env_up :: env where
  "env_up =
     \<lparr>get_geo = (\<lambda>q. if q = ''Paris'' then Inr [\<lparr>lat = 48.85, lon = 2.35\<rparr>] else Inr []),
      get_weather = (\<lambda>la lo. Inr (sample_weather
         (if la = 48.85 \<and> lo = 2.35 then ''Paris'' else ''Berlin''))),
      get_forecast = (\<lambda>la lo. Inr sample_forecast)\<rparr>"

definition env_weather_down :: env where
  "env_weather_down = env_up\<lparr>get_weather := (\<lambda>la lo. Inl NetworkError)\<rparr>"

definition env_forecast_down :: env where
  "env_forecast_down = env_up\<lparr>get_forecast := (\<lambda>la lo. Inl (BadStatus 503))\<rparr>"

text \<open>The page after a startup in Berlin with every endpoint answering, and the city
  field then filled with Paris.\<close>

definition berlin_then_typed_paris :: world where
  "berlin_then_typed_paris =
     setCity ''Paris'' (startup (Position 52.5 13.4) WeatherFirst env_up initial)"




text \<open>Endpoints whose forecast depends on the place.\<close>

definition paris_forecast :: forecast_data where
  "paris_forecast = \<lparr>entries = [sample_entry 7]\<rparr>"

definition env_by_place :: env where
  "env_by_place =
     env_up\<lparr>get_forecast :=
       (\<lambda>la lo. Inr (if la = 48.85 \<and> lo = 2.35 then paris_forecast else sample_forecast))\<rparr>"

text \<open>Two triggers that overlap, every request succeeding. The position callback of
  the startup (lines 70-73) stores Berlin and sends both of its requests; Berlin's
  weather arrives; the user types Paris and the search runs from submission to its
  last line; Berlin's forecast arrives only then.\<close>

definition berlin_forecast_arrives_late :: world where
  "berlin_forecast_arrives_late =
     fetchForecast_settle 52.5 13.4 (get_forecast env_by_place 52.5 13.4)
       (handleSearch env_by_place
          (setCity ''Paris''
             (fetchWeather_settle 52.5 13.4 (get_weather env_by_place 52.5 13.4)
                (fetchForecast_send 52.5 13.4
                   (fetchWeather_send 52.5 13.4
                      (setCoords (Some (52.5, 13.4)) initial))))))"


section \<open>Auxiliary facts\<close>

lemmas setter_defs =
  setCity_def setWeather_def setForecast_def setLoading_def setError_def setCoords_def
  setDarkMode_def send_def settle_def console_error_def

lemmas handler_defs =
  fetchWeather_def fetchWeather_send_def fetchWeather_settle_def
  fetchForecast_def fetchForecast_send_def fetchForecast_settle_def
  handleSearch_def handleSearch_send_def handleSearch_settle_def startup_def

lemmas sample_defs =
  initial_def sample_weather_def sample_forecast_def env_up_def env_weather_down_def
  env_forecast_down_def







section \<open>Dark mode\<close>

text \<open>
  Claim C9. Toggling dark mode twice gives back the original dark-mode flag, and one
  toggle leaves the city text, weather, forecast, loading flag, error message and
  coordinates as they were (and causes no HTTP traffic and no console output).
\<close>

theorem toggleDarkMode_involution_frame:
  "darkMode (ui (toggleDarkMode (toggleDarkMode w))) = darkMode (ui w)
   \<and> darkMode (ui (toggleDarkMode w)) = (\<not> darkMode (ui w))
   \<and> city (ui (toggleDarkMode w)) = city (ui w)
   \<and> weather (ui (toggleDarkMode w)) = weather (ui w)
   \<and> forecast (ui (toggleDarkMode w)) = forecast (ui w)
   \<and> loading (ui (toggleDarkMode w)) = loading (ui w)
   \<and> error (ui (toggleDarkMode w)) = error (ui w)
   \<and> coords (ui (toggleDarkMode w)) = coords (ui w)
   \<and> http (toggleDarkMode w) = http w
   \<and> console (toggleDarkMode w) = console w"
  by (simp add: toggleDarkMode_def setDarkMode_def)

section \<open>Snapshots of weather and forecast\<close>

text \<open>
  Claim C1, as the code has it. Weather and forecast are null before the first load. A
  current-weather fetch whose request succeeds stores the new snapshot; one whose
  request fails leaves the weather cell as it was (null only when it was null before).
  The forecast fetch does the same to the forecast cell.
\<close>

theorem fetch_replaces_or_keeps:
  "weather (ui initial) = None \<and> forecast (ui initial) = None
   \<and> weather (ui (fetchWeather en la lo w)) =
       (case get_weather en la lo of Inl e \<Rightarrow> weather (ui w) | Inr d \<Rightarrow> Some d)
   \<and> forecast (ui (fetchForecast en la lo w)) =
       (case get_forecast en la lo of Inl e \<Rightarrow> forecast (ui w) | Inr f \<Rightarrow> Some f)"
  by (simp add: initial_def handler_defs setter_defs split: sum.split)

text \<open>
  Claim C1 as stated fails: a fetch for Berlin that succeeds, followed by a fetch whose
  request fails, ends with the Berlin snapshot still in the weather cell, not with null.
\<close>

theorem failed_fetch_keeps_weather_counterexample:
  "get_weather env_weather_down 52.5 13.4 = Inl NetworkError
   \<and> weather (ui (fetchWeather env_weather_down 52.5 13.4
                    (fetchWeather env_up 52.5 13.4 initial)))
       = Some (sample_weather ''Berlin'')
   \<and> weather (ui (fetchWeather env_weather_down 52.5 13.4
                    (fetchWeather env_up 52.5 13.4 initial))) \<noteq> None"
  by (simp add: sample_defs handler_defs setter_defs)

section \<open>Forecast failures\<close>

text \<open>
  Claim C2. When the current-weather fetch succeeds and the forecast fetch that follows
  fails, the failure goes to the console only: the error message is empty, the fetched
  weather is still in the weather cell, and the forecast fetch has changed no state cell.
  The same holds for the pair as run at startup, in either order of arrival.
\<close>

theorem forecast_failure_only_logged:
  assumes "get_weather en la lo = Inr d" and "get_forecast en la lo = Inl e"
  shows "error (ui (fetchForecast en la lo (fetchWeather en la lo w))) = ''''
    \<and> weather (ui (fetchForecast en la lo (fetchWeather en la lo w))) = Some d
    \<and> ui (fetchForecast en la lo (fetchWeather en la lo w)) = ui (fetchWeather en la lo w)
    \<and> console (fetchForecast en la lo (fetchWeather en la lo w))
        = console w @ [''Unable to fetch forecast data'']
    \<and> error (ui (startup (Position la lo) ord en w)) = ''''
    \<and> weather (ui (startup (Position la lo) ord en w)) = Some d
    \<and> console (startup (Position la lo) ord en w)
        = console w @ [''Unable to fetch forecast data'']"
  using assms by (cases ord) (simp_all add: handler_defs setter_defs)

theorem forecast_failure_only_logged_witness:
  "get_weather env_forecast_down 52.5 13.4 = Inr (sample_weather ''Berlin'')
   \<and> get_forecast env_forecast_down 52.5 13.4 = Inl (BadStatus 503)
   \<and> error (ui (fetchForecast env_forecast_down 52.5 13.4
                   (fetchWeather env_forecast_down 52.5 13.4 initial))) = ''''
   \<and> weather (ui (fetchForecast env_forecast_down 52.5 13.4
                   (fetchWeather env_forecast_down 52.5 13.4 initial)))
       = Some (sample_weather ''Berlin'')
   \<and> error (ui (startup (Position 52.5 13.4) ForecastFirst env_forecast_down initial)) = ''''
   \<and> weather (ui (startup (Position 52.5 13.4) ForecastFirst env_forecast_down initial))
       = Some (sample_weather ''Berlin'')"
proof -
  have a: "get_weather env_forecast_down 52.5 13.4 = Inr (sample_weather ''Berlin'')"
    by (simp add: sample_defs)
  have b: "get_forecast env_forecast_down 52.5 13.4 = Inl (BadStatus 503)"
    by (simp add: sample_defs)
  from forecast_failure_only_logged [OF a b, of initial ForecastFirst] a b
  show ?thesis by blast
qed

text \<open>
  Claim C10. The forecast fetch writes no state cell other than the forecast: when its
  request succeeds the cells afterwards are the cells before with the forecast replaced,
  when it fails they are the cells before; sending the request changes no cell either.
\<close>

theorem fetchForecast_frame:
  "ui (fetchForecast en la lo w) =
     (case get_forecast en la lo of
        Inl e \<Rightarrow> ui w
      | Inr f \<Rightarrow> (ui w)\<lparr>forecast := Some f\<rparr>)
   \<and> ui (fetchForecast_send la lo w) = ui w
   \<and> loading (ui (fetchForecast en la lo w)) = loading (ui w)
   \<and> error (ui (fetchForecast en la lo w)) = error (ui w)
   \<and> weather (ui (fetchForecast en la lo w)) = weather (ui w)
   \<and> coords (ui (fetchForecast en la lo w)) = coords (ui w)"
  by (simp add: fetchForecast_def fetchForecast_settle_def fetchForecast_send_def
      setter_defs split: sum.split)

section \<open>The forecast strip\<close>




section \<open>Search\<close>

text \<open>
  Claim C4. Whatever the endpoints answer, the search handler has set the loading flag
  and cleared the error message by the time its geocoding request leaves, and the
  loading flag is false when the handler has finished.
\<close>

theorem handleSearch_loading:
  "loading (ui (handleSearch_send w))
   \<and> error (ui (handleSearch_send w)) = ''''
   \<and> http (handleSearch_send w) = http w @ [Sent (GeoReq (city (ui w)))]
   \<and> handleSearch en w =
       handleSearch_settle en (city (ui w)) (get_geo en (city (ui w))) (handleSearch_send w)
   \<and> \<not> loading (ui (handleSearch en w))"
  by (simp add: handleSearch_def handleSearch_settle_def handleSearch_send_def
      setLoading_def setError_def send_def)

text \<open>
  Claim C5. When the geocoding answer is the empty list, the error message is the
  "City not found" message and the only HTTP traffic of the search is the geocoding
  request: no weather request and no forecast request is sent.
\<close>

theorem search_zero_results:
  assumes "get_geo en (city (ui w)) = Inr []"
  shows "error (ui (handleSearch en w)) = ''City not found. Please try again.''
    \<and> http (handleSearch en w) =
        http w @ [Sent (GeoReq (city (ui w))), Settled (GeoReq (city (ui w)))]"
  using assms by (simp add: handler_defs setter_defs)

theorem search_zero_results_witness:
  "get_geo env_up (city (ui (setCity ''Nowhere12345'' initial))) = Inr []
   \<and> error (ui (handleSearch env_up (setCity ''Nowhere12345'' initial)))
       = ''City not found. Please try again.''
   \<and> http (handleSearch env_up (setCity ''Nowhere12345'' initial))
       = [Sent (GeoReq ''Nowhere12345''), Settled (GeoReq ''Nowhere12345'')]"
proof -
  have a: "get_geo env_up (city (ui (setCity ''Nowhere12345'' initial))) = Inr []"
    by (simp add: sample_defs setCity_def)
  have b: "city (ui (setCity ''Nowhere12345'' initial)) = ''Nowhere12345''"
    by (simp add: setCity_def)
  have c: "http (setCity ''Nowhere12345'' initial) = []"
    by (simp add: setCity_def initial_def)
  from search_zero_results [OF a] a show ?thesis
    unfolding b c by simp
qed

text \<open>
  Claim C8. When the geocoding answer starts with an entry at (lat, lon), the HTTP
  traffic of the search is: the geocoding request and its answer, then one weather
  request for (lat, lon) and its answer, and only then one forecast request for
  (lat, lon) and its answer. Nothing else is sent.
\<close>

theorem search_fetches_in_sequence:
  assumes "get_geo en (city (ui w)) = Inr (g # gs)"
  shows "http (handleSearch en w) =
     http w @ [Sent (GeoReq (city (ui w))), Settled (GeoReq (city (ui w))),
               Sent (WeatherReq (lat g) (lon g)), Settled (WeatherReq (lat g) (lon g)),
               Sent (ForecastReq (lat g) (lon g)), Settled (ForecastReq (lat g) (lon g))]"
  using assms by (simp add: handler_defs setter_defs split: sum.split)

theorem search_fetches_in_sequence_witness:
  "get_geo env_up (city (ui (setCity ''Paris'' initial))) = Inr [\<lparr>lat = 48.85, lon = 2.35\<rparr>]
   \<and> http (handleSearch env_up (setCity ''Paris'' initial)) =
       [Sent (GeoReq ''Paris''), Settled (GeoReq ''Paris''),
        Sent (WeatherReq 48.85 2.35), Settled (WeatherReq 48.85 2.35),
        Sent (ForecastReq 48.85 2.35), Settled (ForecastReq 48.85 2.35)]"
proof -
  have a: "get_geo env_up (city (ui (setCity ''Paris'' initial)))
             = Inr [\<lparr>lat = 48.85, lon = 2.35\<rparr>]"
    by (simp add: sample_defs setCity_def)
  have b: "city (ui (setCity ''Paris'' initial)) = ''Paris''"
    by (simp add: setCity_def)
  have c: "http (setCity ''Paris'' initial) = []"
    by (simp add: setCity_def initial_def)
  from search_fetches_in_sequence [OF a] a show ?thesis
    unfolding b c by simp
qed

section \<open>Startup without a position\<close>

text \<open>
  Claim C6. When geolocation is unsupported and when the position request fails (denied,
  unavailable or timed out), the user is shown the same instruction to search by hand,
  "Please search for a city.", at the end of the error message, and no HTTP request is
  sent in either case.
\<close>

theorem startup_without_position:
  "error (ui (startup Unsupported ord en w))
     = ''Geolocation is not supported by your browser. '' @ ''Please search for a city.''
   \<and> error (ui (startup (Failed e) ord en w))
     = ''Unable to retrieve your location. '' @ ''Please search for a city.''
   \<and> http (startup Unsupported ord en w) = http w
   \<and> http (startup (Failed e) ord en w) = http w"
  by (simp add: startup_def setError_def)

section \<open>Coordinates and the snapshots on display\<close>

text \<open>
  Claim C7, as the code has it. Take a search or a startup that runs from its trigger
  to its last line while no request of another trigger is in flight. If the search has
  a geocoding answer that is not empty, or the startup obtains a position, the
  coordinates stored afterwards are those of that trigger; the weather (the forecast) on
  display afterwards is the answer to that trigger's own request when the request
  succeeded, and is what was on display before the trigger when it failed. A search
  with no geocoding result or a failed geocoding request, and a startup without a
  position, leave coordinates, weather and forecast as they were. Hence when both
  requests of such a trigger succeed, coordinates, weather and forecast all come from
  that trigger.
\<close>

theorem coords_follow_trigger:
  "coords (ui (handleSearch en w)) =
     (case get_geo en (city (ui w)) of
        Inr (g # gs) \<Rightarrow> Some (lat g, lon g)
      | _ \<Rightarrow> coords (ui w))
   \<and> weather (ui (handleSearch en w)) =
       (case get_geo en (city (ui w)) of
          Inr (g # gs) \<Rightarrow>
            (case get_weather en (lat g) (lon g) of
               Inr d \<Rightarrow> Some d
             | Inl e \<Rightarrow> weather (ui w))
        | _ \<Rightarrow> weather (ui w))
   \<and> forecast (ui (handleSearch en w)) =
       (case get_geo en (city (ui w)) of
          Inr (g # gs) \<Rightarrow>
            (case get_forecast en (lat g) (lon g) of
               Inr f \<Rightarrow> Some f
             | Inl e \<Rightarrow> forecast (ui w))
        | _ \<Rightarrow> forecast (ui w))
   \<and> coords (ui (startup p ord en w)) =
       (case p of Position la lo \<Rightarrow> Some (la, lo) | _ \<Rightarrow> coords (ui w))
   \<and> weather (ui (startup p ord en w)) =
       (case p of
          Position la lo \<Rightarrow>
            (case get_weather en la lo of Inr d \<Rightarrow> Some d | Inl e \<Rightarrow> weather (ui w))
        | _ \<Rightarrow> weather (ui w))
   \<and> forecast (ui (startup p ord en w)) =
       (case p of
          Position la lo \<Rightarrow>
            (case get_forecast en la lo of Inr f \<Rightarrow> Some f | Inl e \<Rightarrow> forecast (ui w))
        | _ \<Rightarrow> forecast (ui w))
   \<and> (get_geo en (city (ui w)) = Inr (g0 # gs0) \<longrightarrow>
        get_weather en (lat g0) (lon g0) = Inr d0 \<longrightarrow>
        get_forecast en (lat g0) (lon g0) = Inr f0 \<longrightarrow>
        coords_consistent en (handleSearch en w))
   \<and> (get_weather en la0 lo0 = Inr d1 \<longrightarrow> get_forecast en la0 lo0 = Inr f1 \<longrightarrow>
        coords_consistent en (startup (Position la0 lo0) ord en w))"
  by (cases ord)
    (auto simp add: handler_defs setter_defs coords_consistent_def
      split: sum.split list.split geolocation.split)

theorem coords_follow_trigger_witness:
  "get_geo env_up (city (ui (setCity ''Paris'' initial)))
     = Inr (\<lparr>lat = 48.85, lon = 2.35\<rparr> # [])
   \<and> get_weather env_up (lat \<lparr>lat = 48.85, lon = 2.35\<rparr>) (lon \<lparr>lat = 48.85, lon = 2.35\<rparr>)
       = Inr (sample_weather ''Paris'')
   \<and> get_forecast env_up (lat \<lparr>lat = 48.85, lon = 2.35\<rparr>) (lon \<lparr>lat = 48.85, lon = 2.35\<rparr>)
       = Inr sample_forecast
   \<and> get_weather env_up 52.5 13.4 = Inr (sample_weather ''Berlin'')
   \<and> get_forecast env_up 52.5 13.4 = Inr sample_forecast
   \<and> coords_consistent env_up (handleSearch env_up (setCity ''Paris'' initial))
   \<and> coords_consistent env_up
       (startup (Position 52.5 13.4) WeatherFirst env_up (setCity ''Paris'' initial))"
proof -
  have a: "get_geo env_up (city (ui (setCity ''Paris'' initial)))
             = Inr (\<lparr>lat = 48.85, lon = 2.35\<rparr> # [])"
    by (simp add: sample_defs setCity_def)
  have b: "get_weather env_up (lat \<lparr>lat = 48.85, lon = 2.35\<rparr>) (lon \<lparr>lat = 48.85, lon = 2.35\<rparr>)
             = Inr (sample_weather ''Paris'')"
    by (simp add: sample_defs)
  have c: "get_forecast env_up (lat \<lparr>lat = 48.85, lon = 2.35\<rparr>) (lon \<lparr>lat = 48.85, lon = 2.35\<rparr>)
             = Inr sample_forecast"
    by (simp add: sample_defs)
  have d: "get_weather env_up 52.5 13.4 = Inr (sample_weather ''Berlin'')"
    by (simp add: sample_defs)
  have e: "get_forecast env_up 52.5 13.4 = Inr sample_forecast"
    by (simp add: sample_defs)
  from coords_follow_trigger
    [where en = env_up and w = "setCity ''Paris'' initial"
       and ?g0.0 = "\<lparr>lat = 48.85, lon = 2.35\<rparr>" and ?gs0.0 = "[]"
       and ?d0.0 = "sample_weather ''Paris''" and ?f0.0 = sample_forecast
       and ?la0.0 = "52.5" and ?lo0.0 = "13.4"
       and ?d1.0 = "sample_weather ''Berlin''" and ?f1.0 = sample_forecast
       and ord = WeatherFirst]
    a b c d e
  show ?thesis by blast
qed

text \<open>
  Claim C7 as stated fails, in two ways. After a startup in Berlin with every endpoint
  answering, the coordinates agree with what is on display; a search for Paris whose
  weather request fails then stores the coordinates of Paris while the weather on
  display is still the Berlin snapshot. And when two triggers overlap, no request needs
  to fail: with Berlin's forecast still in flight during a search for Paris, every
  request succeeds and the page ends with the coordinates and the weather of Paris
  beside the forecast of Berlin.
\<close>

theorem stale_weather_beside_new_coords_counterexample:
  "coords_consistent env_up berlin_then_typed_paris
   \<and> coords (ui (handleSearch env_weather_down berlin_then_typed_paris)) = Some (48.85, 2.35)
   \<and> weather (ui (handleSearch env_weather_down berlin_then_typed_paris))
       = Some (sample_weather ''Berlin'')
   \<and> get_weather env_weather_down 48.85 2.35 = Inl NetworkError
   \<and> get_weather env_up 48.85 2.35 = Inr (sample_weather ''Paris'')
   \<and> \<not> coords_consistent env_weather_down
         (handleSearch env_weather_down berlin_then_typed_paris)
   \<and> \<not> coords_consistent env_up (handleSearch env_weather_down berlin_then_typed_paris)
   \<and> get_weather env_by_place 52.5 13.4 = Inr (sample_weather ''Berlin'')
   \<and> get_forecast env_by_place 52.5 13.4 = Inr sample_forecast
   \<and> get_geo env_by_place ''Paris'' = Inr [\<lparr>lat = 48.85, lon = 2.35\<rparr>]
   \<and> get_weather env_by_place 48.85 2.35 = Inr (sample_weather ''Paris'')
   \<and> get_forecast env_by_place 48.85 2.35 = Inr paris_forecast
   \<and> coords (ui berlin_forecast_arrives_late) = Some (48.85, 2.35)
   \<and> weather (ui berlin_forecast_arrives_late) = Some (sample_weather ''Paris'')
   \<and> forecast (ui berlin_forecast_arrives_late) = Some sample_forecast
   \<and> \<not> coords_consistent env_by_place berlin_forecast_arrives_late"
proof -
  have stale: "coords_consistent env_up berlin_then_typed_paris
   \<and> coords (ui (handleSearch env_weather_down berlin_then_typed_paris)) = Some (48.85, 2.35)
   \<and> weather (ui (handleSearch env_weather_down berlin_then_typed_paris))
       = Some (sample_weather ''Berlin'')
   \<and> get_weather env_weather_down 48.85 2.35 = Inl NetworkError
   \<and> get_weather env_up 48.85 2.35 = Inr (sample_weather ''Paris'')
   \<and> \<not> coords_consistent env_weather_down
         (handleSearch env_weather_down berlin_then_typed_paris)
   \<and> \<not> coords_consistent env_up (handleSearch env_weather_down berlin_then_typed_paris)"
    by (simp add: berlin_then_typed_paris_def sample_defs handler_defs setter_defs
        coords_consistent_def)
  have ne: "sample_forecast \<noteq> paris_forecast"
  proof
    assume "sample_forecast = paris_forecast"
    then have "length (entries sample_forecast) = length (entries paris_forecast)"
      by simp
    then show False
      by (simp add: sample_forecast_def paris_forecast_def)
  qed
  have overlap: "get_weather env_by_place 52.5 13.4 = Inr (sample_weather ''Berlin'')
   \<and> get_forecast env_by_place 52.5 13.4 = Inr sample_forecast
   \<and> get_geo env_by_place ''Paris'' = Inr [\<lparr>lat = 48.85, lon = 2.35\<rparr>]
   \<and> get_weather env_by_place 48.85 2.35 = Inr (sample_weather ''Paris'')
   \<and> get_forecast env_by_place 48.85 2.35 = Inr paris_forecast
   \<and> coords (ui berlin_forecast_arrives_late) = Some (48.85, 2.35)
   \<and> weather (ui berlin_forecast_arrives_late) = Some (sample_weather ''Paris'')
   \<and> forecast (ui berlin_forecast_arrives_late) = Some sample_forecast
   \<and> \<not> coords_consistent env_by_place berlin_forecast_arrives_late"
    using ne
    by (simp add: berlin_forecast_arrives_late_def env_by_place_def env_up_def initial_def
        handler_defs setter_defs coords_consistent_def)
  from stale overlap show ?thesis by (intro conjI) (elim conjE, assumption)+
qed

end
